theory Spec2Isabelle
  imports Main "HOL-Library.AList" "HOL-Library.Multiset"
begin

section \<open>The CORS middleware of package rest (rest/cors.go)\<close>

text \<open>
  The middleware is one method, \<open>(*CorsMiddleware).MiddlewareFunc\<close>, which wraps a
  handler. Its effects are made explicit: the receiver \<open>mw\<close> (whose two private maps
  are filled on the first preflight request) and the response writer are passed in and
  returned, the wrapped handler is a function on the response writer, and the result
  records whether the handler was run.
\<close>

subsection \<open>Go values\<close>

text \<open>
  A non-nil \<open>map[string]bool\<close> is an association list with distinct keys; the nil map
  is \<open>None\<close> in the field that holds it. \<open>index m k\<close> is the Go expression \<open>m[k]\<close>
  (\<open>false\<close> for a missing key), \<open>AList.update k v m\<close> is the assignment
  \<open>m[k] = v\<close>.
\<close>

type_synonym go_map = "(string \<times> bool) list"

definition index :: "go_map \<Rightarrow> string \<Rightarrow> bool" where
  "index m k = (case map_of m k of None \<Rightarrow> False | Some b \<Rightarrow> b)"

definition keys :: "go_map \<Rightarrow> string list" where
  "keys m = map fst m"

text \<open>
  Go leaves the order of a \<open>range\<close> over a map unspecified, and it may differ from one
  loop to the next. Each of the two such loops of the middleware takes its order as an
  argument: a function that rearranges the list of keys. \<open>range_order\<close> says that it
  visits every key exactly once.
\<close>

type_synonym order = "string list \<Rightarrow> string list"

definition range_order :: "order \<Rightarrow> bool" where
  "range_order ord \<longleftrightarrow> (\<forall>ks. mset (ord ks) = mset ks)"

text \<open>
  The conversion \<open>string(i)\<close> of an integer: the UTF-8 encoding of the code point
  \<open>i\<close>, and of U+FFFD when \<open>i\<close> is not a valid code point (the language specification,
  "Conversions to and from a string type"; \<open>utf8.EncodeRune\<close>).
\<close>

definition RuneError :: int where
  "RuneError = 0xFFFD"

definition encoderune3 :: "int \<Rightarrow> string" where
  "encoderune3 r = [char_of (0xE0 + r div 4096), char_of (0x80 + (r div 64) mod 64),
                    char_of (0x80 + r mod 64)]"

definition encoderune :: "int \<Rightarrow> string" where
  "encoderune r =
     (if 0 \<le> r \<and> r \<le> 0x7F then [char_of r]
      else if 0 \<le> r \<and> r \<le> 0x7FF then [char_of (0xC0 + r div 64), char_of (0x80 + r mod 64)]
      else if r < 0 \<or> 0x10FFFF < r \<or> (0xD800 \<le> r \<and> r \<le> 0xDFFF) then encoderune3 RuneError
      else if r \<le> 0xFFFF then encoderune3 r
      else [char_of (0xF0 + r div 262144), char_of (0x80 + (r div 4096) mod 64),
            char_of (0x80 + (r div 64) mod 64), char_of (0x80 + r mod 64)])"

definition intstring :: "int \<Rightarrow> string" where
  "intstring i = encoderune i"

subsection \<open>The request's CORS fields, the response writer, the middleware\<close>

text \<open>
  The fields of \<open>CorsInfo\<close> that \<open>MiddlewareFunc\<close> reads.
\<close>

record CorsInfo =
  IsCors :: bool
  IsPreflight :: bool
  Origin :: string
  AccessControlRequestMethod :: string
  AccessControlRequestHeaders :: "string list"

text \<open>
  Modelled from the spec: the \<open>ResponseWriter\<close> interface and \<open>Error\<close> are declared
  elsewhere in package rest, not in cors.go. A response is its header map (each name
  with its list of values), its status once written, and its body; \<open>Error\<close> gives the
  response the status and the reason as its plain-text body (spec 4.1 and 7: "a fixed
  HTTP status is returned with a short plain-text reason"). \<open>Header().Add\<close> appends a
  value to those of a name and \<open>Header().Set\<close> replaces them by one value; the names
  that cors.go passes are literals in canonical form already.
\<close>

record ResponseWriter =
  Header :: "string \<rightharpoonup> string list"
  Status :: "nat option"
  Body :: string

definition Values :: "(string \<rightharpoonup> string list) \<Rightarrow> string \<Rightarrow> string list" where
  "Values h k = (case h k of None \<Rightarrow> [] | Some vs \<Rightarrow> vs)"

definition Header_Add :: "string \<Rightarrow> string \<Rightarrow> ResponseWriter \<Rightarrow> ResponseWriter" where
  "Header_Add k v w = w\<lparr>Header := (Header w)(k \<mapsto> Values (Header w) k @ [v])\<rparr>"

definition Header_Set :: "string \<Rightarrow> string \<Rightarrow> ResponseWriter \<Rightarrow> ResponseWriter" where
  "Header_Set k v w = w\<lparr>Header := (Header w)(k \<mapsto> [v])\<rparr>"

definition WriteHeader :: "nat \<Rightarrow> ResponseWriter \<Rightarrow> ResponseWriter" where
  "WriteHeader code w = w\<lparr>Status := Some code\<rparr>"

definition Error :: "ResponseWriter \<Rightarrow> string \<Rightarrow> nat \<Rightarrow> ResponseWriter" where
  "Error w reason code = w\<lparr>Status := Some code, Body := reason\<rparr>"

definition StatusOK :: nat where
  "StatusOK = 200"

definition StatusForbidden :: nat where
  "StatusForbidden = 403"

text \<open>
  The struct \<open>CorsMiddleware\<close>. \<open>OriginValidator\<close> is a function value, nil unless the
  configuration sets it; calling it when nil panics.
\<close>

record 'req CorsMiddleware =
  allowedMethods :: "go_map option"
  allowedHeaders :: "go_map option"
  RejectNonCorsRequests :: bool
  OriginValidator :: "(string \<Rightarrow> 'req \<Rightarrow> bool) option"
  AllowedMethods :: "string list"
  AllowedHeaders :: "string list"
  AccessControlAllowCredentials :: bool
  AccessControlMaxAge :: int

text \<open>
  What cors.go calls and does not define: \<open>strings.ToUpper\<close> and
  \<open>http.CanonicalHeaderKey\<close> of the Go library, and the method \<open>GetCorsInfo\<close> of the
  request. They are arguments of the model; the request type is a type variable.
\<close>

record 'req Externals =
  ToUpper :: "string \<Rightarrow> string"
  CanonicalHeaderKey :: "string \<Rightarrow> string"
  GetCorsInfo :: "'req \<Rightarrow> CorsInfo"

datatype panic = NilFunctionCall

record 'req Outcome =
  mw_after :: "'req CorsMiddleware"
  writer_after :: ResponseWriter
  handler_called :: bool

subsection \<open>The loops\<close>

text \<open>
  \<open>for _, a := range list { m[f(a)] = true }\<close>, lines 67-69 and 80-82.
\<close>

fun populate :: "(string \<Rightarrow> string) \<Rightarrow> string list \<Rightarrow> go_map \<Rightarrow> go_map" where
  "populate f [] m = m"
| "populate f (a # as) m = populate f as (AList.update (f a) True m)"

text \<open>
  Lines 85-90: the loop returns at the first requested header whose entry is false.
\<close>

fun requestedHeadersAllowed :: "go_map \<Rightarrow> string list \<Rightarrow> bool" where
  "requestedHeadersAllowed m [] = True"
| "requestedHeadersAllowed m (requestedHeader # rest) =
     (if index m requestedHeader = False then False else requestedHeadersAllowed m rest)"

text \<open>
  Lines 92-97: one \<open>Add\<close> per key, in the order the loop visits the keys.
\<close>

fun addEach :: "string \<Rightarrow> string list \<Rightarrow> ResponseWriter \<Rightarrow> ResponseWriter" where
  "addEach name [] w = w"
| "addEach name (k # ks) w = addEach name ks (Header_Add name k w)"

subsection \<open>MiddlewareFunc\<close>

definition MiddlewareFunc ::
  "'req Externals \<Rightarrow> (ResponseWriter \<Rightarrow> 'req \<Rightarrow> ResponseWriter) \<Rightarrow> order \<Rightarrow> order \<Rightarrow>
   'req CorsMiddleware \<Rightarrow> ResponseWriter \<Rightarrow> 'req \<Rightarrow> panic + 'req Outcome" where
  "MiddlewareFunc ext handler ordM ordH mw writer request =
    (let corsInfo = GetCorsInfo ext request in
     if \<not> IsCors corsInfo then
       (if RejectNonCorsRequests mw
        then Inr \<lparr>mw_after = mw,
                  writer_after = Error writer ''Non CORS request'' StatusForbidden,
                  handler_called = False\<rparr>
        else Inr \<lparr>mw_after = mw, writer_after = handler writer request,
                  handler_called = True\<rparr>)
     else
       (case OriginValidator mw of
          None \<Rightarrow> Inl NilFunctionCall
        | Some validator \<Rightarrow>
            if validator (Origin corsInfo) request = False
            then Inr \<lparr>mw_after = mw,
                      writer_after = Error writer ''Invalid Origin'' StatusForbidden,
                      handler_called = False\<rparr>
            else if IsPreflight corsInfo then
              (let methods = (case allowedMethods mw of
                                None \<Rightarrow> populate (ToUpper ext) (AllowedMethods mw) []
                              | Some m \<Rightarrow> m);
                   mw1 = mw\<lparr>allowedMethods := Some methods\<rparr>
               in
               if index methods (AccessControlRequestMethod corsInfo) = False
               then Inr \<lparr>mw_after = mw1,
                         writer_after = Error writer ''Invalid Preflight Request'' StatusForbidden,
                         handler_called = False\<rparr>
               else
                 (let headers = (case allowedHeaders mw1 of
                                   None \<Rightarrow> populate (CanonicalHeaderKey ext) (AllowedHeaders mw1) []
                                 | Some m \<Rightarrow> m);
                      mw2 = mw1\<lparr>allowedHeaders := Some headers\<rparr>
                  in
                  if \<not> requestedHeadersAllowed headers (AccessControlRequestHeaders corsInfo)
                  then Inr \<lparr>mw_after = mw2,
                            writer_after =
                              Error writer ''Invalid Preflight Request'' StatusForbidden,
                            handler_called = False\<rparr>
                  else
                    (let w1 = addEach ''Access-Control-Allow-Methods'' (ordM (keys methods)) writer;
                         w2 = addEach ''Access-Control-Allow-Headers'' (ordH (keys headers)) w1;
                         w3 = Header_Set ''Access-Control-Allow-Origin'' (Origin corsInfo) w2;
                         w4 = (if AccessControlAllowCredentials mw2 = True
                               then Header_Set ''Access-Control-Allow-Credentials'' ''true'' w3
                               else w3);
                         w5 = Header_Set ''Access-Control-Max-Age''
                                (intstring (AccessControlMaxAge mw2)) w4;
                         w6 = WriteHeader StatusOK w5
                     in Inr \<lparr>mw_after = mw2, writer_after = w6, handler_called = False\<rparr>)))
            else
              (let w1 = Header_Set ''Access-Control-Expose-Headers'' ''X-Powered-By'' writer;
                   w2 = Header_Set ''Access-Control-Allow-Origin'' (Origin corsInfo) w1;
                   w3 = (if AccessControlAllowCredentials mw = True
                         then Header_Set ''Access-Control-Allow-Credentials'' ''true'' w2
                         else w2)
               in Inr \<lparr>mw_after = mw, writer_after = handler w3 request,
                        handler_called = True\<rparr>)))"

text \<open>
  The receiver after a call. The only panic of the model is the call of a nil
  \<open>OriginValidator\<close> at line 57, before any assignment to a field of \<open>mw\<close>.
\<close>

fun receiver_after :: "'req CorsMiddleware \<Rightarrow> panic + 'req Outcome \<Rightarrow> 'req CorsMiddleware" where
  "receiver_after mw (Inl p) = mw"
| "receiver_after mw (Inr out) = mw_after out"

text \<open>
  The maps in use once lines 65-71 and 78-84 have run: the map the field holds, or the
  one built from the configured list when the field is nil.
\<close>

definition methodsInUse :: "'req Externals \<Rightarrow> 'req CorsMiddleware \<Rightarrow> go_map" where
  "methodsInUse ext mw =
     (case allowedMethods mw of
        None \<Rightarrow> populate (ToUpper ext) (AllowedMethods mw) []
      | Some m \<Rightarrow> m)"

definition headersInUse :: "'req Externals \<Rightarrow> 'req CorsMiddleware \<Rightarrow> go_map" where
  "headersInUse ext mw =
     (case allowedHeaders mw of
        None \<Rightarrow> populate (CanonicalHeaderKey ext) (AllowedHeaders mw) []
      | Some m \<Rightarrow> m)"

text \<open>
  The response that lines 92-103 write, given the orders \<open>ms\<close> and \<open>hs\<close> in which the
  two loops visit the keys, and the response that lines 106-110 hand to the wrapped
  handler.
\<close>

definition preflightResponse ::
  "string list \<Rightarrow> string list \<Rightarrow> string \<Rightarrow> bool \<Rightarrow> int \<Rightarrow> ResponseWriter \<Rightarrow> ResponseWriter" where
  "preflightResponse ms hs origin credentials maxAge writer =
     WriteHeader StatusOK
       (Header_Set ''Access-Control-Max-Age'' (intstring maxAge)
         ((if credentials then Header_Set ''Access-Control-Allow-Credentials'' ''true'' else id)
           (Header_Set ''Access-Control-Allow-Origin'' origin
             (addEach ''Access-Control-Allow-Headers'' hs
               (addEach ''Access-Control-Allow-Methods'' ms writer)))))"

definition decorated :: "string \<Rightarrow> bool \<Rightarrow> ResponseWriter \<Rightarrow> ResponseWriter" where
  "decorated origin credentials writer =
     (if credentials then Header_Set ''Access-Control-Allow-Credentials'' ''true'' else id)
       (Header_Set ''Access-Control-Allow-Origin'' origin
         (Header_Set ''Access-Control-Expose-Headers'' ''X-Powered-By'' writer))"

subsection \<open>The derived maps agree with the configuration\<close>

text \<open>
  \<open>holds_exactly m S\<close>: as a Go map, \<open>m\<close> has the keys \<open>S\<close>, each once and each with
  the value \<open>true\<close>. \<open>derived_ok\<close>: each private map of the middleware is nil or holds
  exactly the normalised names of the configured list.
\<close>

definition holds_exactly :: "go_map \<Rightarrow> string set \<Rightarrow> bool" where
  "holds_exactly m S \<longleftrightarrow> distinct (map fst m) \<and> set m = (\<lambda>k. (k, True)) ` S"

definition derived_ok :: "'req Externals \<Rightarrow> 'req CorsMiddleware \<Rightarrow> bool" where
  "derived_ok ext mw \<longleftrightarrow>
     (case allowedMethods mw of
        None \<Rightarrow> True
      | Some m \<Rightarrow> holds_exactly m (ToUpper ext ` set (AllowedMethods mw))) \<and>
     (case allowedHeaders mw of
        None \<Rightarrow> True
      | Some m \<Rightarrow> holds_exactly m (CanonicalHeaderKey ext ` set (AllowedHeaders mw)))"

subsection \<open>The request and its CORS fields\<close>

text \<open>
  Modelled from the spec: the type \<open>Request\<close> and its method \<open>GetCorsInfo\<close> are
  declared elsewhere in package rest, not in cors.go. Spec 3 and 4.1 step 1: \<open>origin\<close>
  is the value of the \<open>Origin\<close> header; \<open>isCors\<close> is the presence of a non-empty
  \<open>Origin\<close> header; \<open>isPreflight\<close> is \<open>isCors\<close>, method \<open>OPTIONS\<close> and an
  \<open>Access-Control-Request-Method\<close> header present; the requested headers are the
  canonical-case names of \<open>Access-Control-Request-Headers\<close>, comma-split and trimmed.
  The requested method is compared upper-cased (spec 4.1 step 4b); the comment on
  \<open>AllowedMethods\<close> in cors.go refers for this to \<open>CorsInfo.AccessControlRequestMethod\<close>,
  and \<open>MiddlewareFunc\<close> looks that field up as it is, so the field holds the upper-cased
  value.
\<close>

record Request =
  Method :: string
  RequestHeader :: "string \<rightharpoonup> string list"

definition Header_Get :: "(string \<rightharpoonup> string list) \<Rightarrow> string \<Rightarrow> string" where
  "Header_Get h k = (case Values h k of [] \<Rightarrow> [] | v # _ \<Rightarrow> v)"

fun Split_comma :: "string \<Rightarrow> string list" where
  "Split_comma [] = [[]]"
| "Split_comma (c # cs) =
     (if c = CHR '','' then [] # Split_comma cs
      else (case Split_comma cs of [] \<Rightarrow> [[c]] | x # xs \<Rightarrow> (c # x) # xs))"

definition isSpace :: "char \<Rightarrow> bool" where
  "isSpace c \<longleftrightarrow> c \<in> set [CHR '' '', CHR 0x09, CHR 0x0A, CHR 0x0B, CHR 0x0C, CHR 0x0D]"

definition TrimSpace :: "string \<Rightarrow> string" where
  "TrimSpace s = rev (dropWhile isSpace (rev (dropWhile isSpace s)))"

definition Request_GetCorsInfo ::
  "(string \<Rightarrow> string) \<Rightarrow> (string \<Rightarrow> string) \<Rightarrow> Request \<Rightarrow> CorsInfo" where
  "Request_GetCorsInfo upper canonical r =
     (let origin = Header_Get (RequestHeader r) ''Origin'';
          isCors = (origin \<noteq> []);
          reqMethod = Header_Get (RequestHeader r) ''Access-Control-Request-Method'';
          reqHeaders = concat (map (\<lambda>raw. map (\<lambda>h. canonical (TrimSpace h)) (Split_comma raw))
                         (Values (RequestHeader r) ''Access-Control-Request-Headers''));
          isPreflight = (isCors \<and> Method r = ''OPTIONS'' \<and>
                         Values (RequestHeader r) ''Access-Control-Request-Method'' \<noteq> [])
      in \<lparr>IsCors = isCors, IsPreflight = isPreflight, Origin = origin,
          AccessControlRequestMethod = upper reqMethod,
          AccessControlRequestHeaders = reqHeaders\<rparr>)"

subsection \<open>A concrete setting to run the middleware in\<close>

text \<open>
  The ASCII behaviour of \<open>strings.ToUpper\<close> and of \<open>http.CanonicalHeaderKey\<close> (a name
  of token bytes gets an upper-case letter at the start and after each hyphen and
  lower-case letters elsewhere; any other string is returned as it is).
\<close>

definition upperByte :: "char \<Rightarrow> char" where
  "upperByte c = (let n = of_char c :: nat in if 97 \<le> n \<and> n \<le> 122 then char_of (n - 32) else c)"

definition lowerByte :: "char \<Rightarrow> char" where
  "lowerByte c = (let n = of_char c :: nat in if 65 \<le> n \<and> n \<le> 90 then char_of (n + 32) else c)"

definition asciiToUpper :: "string \<Rightarrow> string" where
  "asciiToUpper s = map upperByte s"

definition validHeaderFieldByte :: "char \<Rightarrow> bool" where
  "validHeaderFieldByte c \<longleftrightarrow>
     (let n = of_char c :: nat in
      (48 \<le> n \<and> n \<le> 57) \<or> (65 \<le> n \<and> n \<le> 90) \<or> (97 \<le> n \<and> n \<le> 122) \<or>
      c \<in> set (CHR 0x27 # ''!#$%&*+-.^_`|~''))"

fun canonicalBytes :: "bool \<Rightarrow> string \<Rightarrow> string" where
  "canonicalBytes upper [] = []"
| "canonicalBytes upper (c # cs) =
     (let c' = (if upper then upperByte c else lowerByte c)
      in c' # canonicalBytes (c' = CHR ''-'') cs)"

definition asciiCanonicalHeaderKey :: "string \<Rightarrow> string" where
  "asciiCanonicalHeaderKey s = (if list_all validHeaderFieldByte s then canonicalBytes True s else s)"

definition externalsFor :: "(string \<Rightarrow> string) \<Rightarrow> (string \<Rightarrow> string) \<Rightarrow> Request Externals" where
  "externalsFor upper canonical =
     \<lparr>ToUpper = upper, CanonicalHeaderKey = canonical,
      GetCorsInfo = Request_GetCorsInfo upper canonical\<rparr>"

definition exampleExternals :: "Request Externals" where
  "exampleExternals = externalsFor asciiToUpper asciiCanonicalHeaderKey"

text \<open>
  A policy like the one of the scenarios in section 8 of the specification, with
  mixed-case configuration entries, a validator that accepts one origin, and a maximum
  age of an hour; \<open>nil\<close> maps, as the zero value of the struct has them.
\<close>

definition exampleValidator :: "string \<Rightarrow> Request \<Rightarrow> bool" where
  "exampleValidator origin r \<longleftrightarrow> origin = ''http://a.com''"

definition examplePolicy :: "Request CorsMiddleware" where
  "examplePolicy =
     \<lparr>allowedMethods = None, allowedHeaders = None, RejectNonCorsRequests = False,
      OriginValidator = Some exampleValidator,
      AllowedMethods = [''GET'', ''Post''], AllowedHeaders = [''x-custom''],
      AccessControlAllowCredentials = True, AccessControlMaxAge = 3600\<rparr>"

definition emptyResponse :: ResponseWriter where
  "emptyResponse = \<lparr>Header = Map.empty, Status = None, Body = []\<rparr>"

definition newRequest :: "string \<Rightarrow> (string \<times> string list) list \<Rightarrow> Request" where
  "newRequest m hs = \<lparr>Method = m, RequestHeader = map_of hs\<rparr>"

definition examplePreflight :: Request where
  "examplePreflight =
     newRequest ''OPTIONS'' [(''Origin'', [''http://a.com'']),
                          (''Access-Control-Request-Method'', [''post'']),
                          (''Access-Control-Request-Headers'', [''x-custom'', '' X-CUSTOM,x-Custom ''])]"

definition exampleDelete :: Request where
  "exampleDelete =
     newRequest ''OPTIONS'' [(''Origin'', [''http://a.com'']),
                          (''Access-Control-Request-Method'', [''delete''])]"

definition exampleOtherHeader :: Request where
  "exampleOtherHeader =
     newRequest ''OPTIONS'' [(''Origin'', [''http://a.com'']),
                          (''Access-Control-Request-Method'', [''GET'']),
                          (''Access-Control-Request-Headers'', [''x-custom, x-other''])]"

definition exampleSimple :: Request where
  "exampleSimple = newRequest ''GET'' [(''Origin'', [''http://a.com''])]"

definition exampleEvil :: Request where
  "exampleEvil = newRequest ''GET'' [(''Origin'', [''http://evil.com''])]"

definition exampleNonCors :: Request where
  "exampleNonCors = newRequest ''GET'' []"

text \<open>
  The example policy once a preflight request has filled its two maps.
\<close>

definition examplePolicyInUse :: "Request CorsMiddleware" where
  "examplePolicyInUse =
     examplePolicy\<lparr>allowedMethods := Some [(''GET'', True), (''POST'', True)],
                   allowedHeaders := Some [(''X-Custom'', True)]\<rparr>"

text \<open>
  The decimal string of an integer, which spec 4.1 step 4d gives as the value of
  \<open>Access-Control-Max-Age\<close>.
\<close>

fun decimalNat :: "nat \<Rightarrow> string" where
  "decimalNat n =
     (if n < 10 then [char_of (48 + n)] else decimalNat (n div 10) @ [char_of (48 + n mod 10)])"

definition decimal :: "int \<Rightarrow> string" where
  "decimal i = (if i < 0 then CHR ''-'' # decimalNat (nat (- i)) else decimalNat (nat i))"

definition exampleHandler :: "ResponseWriter \<Rightarrow> Request \<Rightarrow> ResponseWriter" where
  "exampleHandler w r = WriteHeader StatusOK (w\<lparr>Body := ''ok''\<rparr>)"

section \<open>Properties\<close>

subsection \<open>The maps built from the configured lists\<close>

lemma keys_populate: "set (keys (populate f as m)) = set (keys m) \<union> f ` set as"
  by (induction as arbitrary: m) (auto simp: keys_def AList.dom_update)

lemma distinct_populate: "distinct (map fst m) \<Longrightarrow> distinct (map fst (populate f as m))"
  by (induction as arbitrary: m) (auto simp: AList.distinct_update)

lemma map_of_populate:
  "map_of (populate f as m) k = (if k \<in> f ` set as then Some True else map_of m k)"
  by (induction as arbitrary: m) (auto simp: AList.update_conv')

lemma holds_exactly_populate: "holds_exactly (populate f as []) (f ` set as)"
proof -
  have d: "distinct (map fst (populate f as []))"
    by (rule distinct_populate) simp
  have "(k, v) \<in> set (populate f as []) \<longleftrightarrow> v \<and> k \<in> f ` set as" for k v
  proof -
    have "(k, v) \<in> set (populate f as []) \<longleftrightarrow> map_of (populate f as []) k = Some v"
      using d by simp
    also have "\<dots> \<longleftrightarrow> v \<and> k \<in> f ` set as"
      unfolding map_of_populate by auto
    finally show ?thesis .
  qed
  then have "set (populate f as []) = (\<lambda>k. (k, True)) ` (f ` set as)"
    by (intro set_eqI) (auto simp: image_iff)
  with d show ?thesis
    by (simp add: holds_exactly_def)
qed

lemma index_holds_exactly:
  assumes "holds_exactly m S"
  shows "index m k \<longleftrightarrow> k \<in> S"
proof -
  from assms have d: "distinct (map fst m)" and s: "set m = (\<lambda>k. (k, True)) ` S"
    by (simp_all add: holds_exactly_def)
  have mem: "(k, b) \<in> set m \<longleftrightarrow> b \<and> k \<in> S" for b
    unfolding s by blast
  show ?thesis
  proof (cases "map_of m k")
    case None
    have "k \<notin> S"
    proof
      assume "k \<in> S"
      then have "(k, True) \<in> set m" by (simp add: mem)
      then have "k \<in> fst ` set m" by (rule image_eqI [rotated]) simp
      with None show False by (simp add: map_of_eq_None_iff)
    qed
    with None show ?thesis by (simp add: index_def)
  next
    case (Some b)
    then have "(k, b) \<in> set m" by (rule map_of_SomeD)
    then have "b \<and> k \<in> S" by (simp add: mem)
    with Some show ?thesis by (simp add: index_def)
  qed
qed

lemma keys_holds_exactly: "holds_exactly m S \<Longrightarrow> set (keys m) = S \<and> distinct (keys m)"
  by (simp add: holds_exactly_def keys_def image_image)

lemma requestedHeadersAllowed_iff:
  "requestedHeadersAllowed m hs \<longleftrightarrow> (\<forall>h \<in> set hs. index m h)"
  by (induction hs) auto

subsection \<open>The response writer\<close>

lemma Values_addEach:
  "Values (Header (addEach name ks w)) name = Values (Header w) name @ ks"
  by (induction ks arbitrary: w) (auto simp: Header_Add_def Values_def)

lemma Header_addEach_other:
  "k \<noteq> name \<Longrightarrow> Header (addEach name ks w) k = Header w k"
  by (induction ks arbitrary: w) (auto simp: Header_Add_def)

lemma Status_Header_Add: "Status (Header_Add name k w) = Status w"
  by (simp add: Header_Add_def)

lemma Body_Header_Add: "Body (Header_Add name k w) = Body w"
  by (simp add: Header_Add_def)

lemma Status_addEach: "Status (addEach name ks w) = Status w"
  by (induction ks arbitrary: w) (simp_all add: Status_Header_Add)

lemma Body_addEach: "Body (addEach name ks w) = Body w"
  by (induction ks arbitrary: w) (simp_all add: Body_Header_Add)

subsection \<open>The branches of MiddlewareFunc\<close>

lemma methodsInUse_exact:
  "derived_ok ext mw \<Longrightarrow> holds_exactly (methodsInUse ext mw) (ToUpper ext ` set (AllowedMethods mw))"
  by (cases "allowedMethods mw") (simp_all add: derived_ok_def methodsInUse_def holds_exactly_populate)

lemma headersInUse_exact:
  "derived_ok ext mw \<Longrightarrow>
   holds_exactly (headersInUse ext mw) (CanonicalHeaderKey ext ` set (AllowedHeaders mw))"
  by (cases "allowedHeaders mw") (simp_all add: derived_ok_def headersInUse_def holds_exactly_populate)

lemma MiddlewareFunc_nonCors:
  assumes "\<not> IsCors (GetCorsInfo ext request)"
  shows "MiddlewareFunc ext handler ordM ordH mw writer request =
    (if RejectNonCorsRequests mw
     then Inr \<lparr>mw_after = mw, writer_after = Error writer ''Non CORS request'' StatusForbidden,
               handler_called = False\<rparr>
     else Inr \<lparr>mw_after = mw, writer_after = handler writer request, handler_called = True\<rparr>)"
  using assms by (simp add: MiddlewareFunc_def)

lemma MiddlewareFunc_nilValidator:
  assumes "IsCors (GetCorsInfo ext request)" and "OriginValidator mw = None"
  shows "MiddlewareFunc ext handler ordM ordH mw writer request = Inl NilFunctionCall"
  using assms by (simp add: MiddlewareFunc_def)

lemma MiddlewareFunc_invalidOrigin:
  assumes "IsCors (GetCorsInfo ext request)" and "OriginValidator mw = Some validator"
    and "\<not> validator (Origin (GetCorsInfo ext request)) request"
  shows "MiddlewareFunc ext handler ordM ordH mw writer request =
    Inr \<lparr>mw_after = mw, writer_after = Error writer ''Invalid Origin'' StatusForbidden,
         handler_called = False\<rparr>"
  using assms by (simp add: MiddlewareFunc_def)

lemma MiddlewareFunc_simple:
  assumes "IsCors (GetCorsInfo ext request)" and "OriginValidator mw = Some validator"
    and "validator (Origin (GetCorsInfo ext request)) request"
    and "\<not> IsPreflight (GetCorsInfo ext request)"
  shows "MiddlewareFunc ext handler ordM ordH mw writer request =
    Inr \<lparr>mw_after = mw,
         writer_after = handler
           (decorated (Origin (GetCorsInfo ext request)) (AccessControlAllowCredentials mw) writer)
           request,
         handler_called = True\<rparr>"
  using assms by (simp add: MiddlewareFunc_def Let_def decorated_def)

lemma MiddlewareFunc_methodRejected:
  assumes "IsCors (GetCorsInfo ext request)" and "OriginValidator mw = Some validator"
    and "validator (Origin (GetCorsInfo ext request)) request"
    and "IsPreflight (GetCorsInfo ext request)"
    and "\<not> index (methodsInUse ext mw) (AccessControlRequestMethod (GetCorsInfo ext request))"
  shows "MiddlewareFunc ext handler ordM ordH mw writer request =
    Inr \<lparr>mw_after = mw\<lparr>allowedMethods := Some (methodsInUse ext mw)\<rparr>,
         writer_after = Error writer ''Invalid Preflight Request'' StatusForbidden,
         handler_called = False\<rparr>"
  using assms by (simp add: MiddlewareFunc_def Let_def methodsInUse_def)

lemma MiddlewareFunc_headerRejected:
  assumes "IsCors (GetCorsInfo ext request)" and "OriginValidator mw = Some validator"
    and "validator (Origin (GetCorsInfo ext request)) request"
    and "IsPreflight (GetCorsInfo ext request)"
    and "index (methodsInUse ext mw) (AccessControlRequestMethod (GetCorsInfo ext request))"
    and "\<not> requestedHeadersAllowed (headersInUse ext mw)
             (AccessControlRequestHeaders (GetCorsInfo ext request))"
  shows "MiddlewareFunc ext handler ordM ordH mw writer request =
    Inr \<lparr>mw_after = mw\<lparr>allowedMethods := Some (methodsInUse ext mw),
                          allowedHeaders := Some (headersInUse ext mw)\<rparr>,
         writer_after = Error writer ''Invalid Preflight Request'' StatusForbidden,
         handler_called = False\<rparr>"
  using assms
  by (simp add: MiddlewareFunc_def Let_def methodsInUse_def headersInUse_def
      cong: option.case_cong)

lemma MiddlewareFunc_preflightOK:
  assumes "IsCors (GetCorsInfo ext request)" and "OriginValidator mw = Some validator"
    and "validator (Origin (GetCorsInfo ext request)) request"
    and "IsPreflight (GetCorsInfo ext request)"
    and "index (methodsInUse ext mw) (AccessControlRequestMethod (GetCorsInfo ext request))"
    and "requestedHeadersAllowed (headersInUse ext mw)
             (AccessControlRequestHeaders (GetCorsInfo ext request))"
  shows "MiddlewareFunc ext handler ordM ordH mw writer request =
    Inr \<lparr>mw_after = mw\<lparr>allowedMethods := Some (methodsInUse ext mw),
                          allowedHeaders := Some (headersInUse ext mw)\<rparr>,
         writer_after =
           preflightResponse (ordM (keys (methodsInUse ext mw))) (ordH (keys (headersInUse ext mw)))
             (Origin (GetCorsInfo ext request)) (AccessControlAllowCredentials mw)
             (AccessControlMaxAge mw) writer,
         handler_called = False\<rparr>"
  using assms
  by (simp add: MiddlewareFunc_def Let_def methodsInUse_def headersInUse_def preflightResponse_def
      cong: option.case_cong)

lemma preflight_response:
  fixes writer :: ResponseWriter and age :: int and origin :: string and cred :: bool
    and hs ms :: "string list"
  defines "w \<equiv> preflightResponse ms hs origin cred age writer"
  shows "Status w = Some 200"
    and "Body w = Body writer"
    and "Values (Header w) name =
      (if name = ''Access-Control-Max-Age'' then [intstring age]
       else if cred \<and> name = ''Access-Control-Allow-Credentials'' then [''true'']
       else if name = ''Access-Control-Allow-Origin'' then [origin]
       else if name = ''Access-Control-Allow-Headers'' then Values (Header writer) name @ hs
       else if name = ''Access-Control-Allow-Methods'' then Values (Header writer) name @ ms
       else Values (Header writer) name)"
proof -
  show "Status w = Some 200"
    by (simp add: w_def preflightResponse_def WriteHeader_def Header_Set_def Status_addEach StatusOK_def)
  show "Body w = Body writer"
    by (simp add: w_def preflightResponse_def WriteHeader_def Header_Set_def Body_addEach)
  have other: "Values (Header (addEach k ks v)) n = Values (Header v) n" if "n \<noteq> k" for k ks v n
    using that by (simp add: Values_def Header_addEach_other)
  show "Values (Header w) name =
      (if name = ''Access-Control-Max-Age'' then [intstring age]
       else if cred \<and> name = ''Access-Control-Allow-Credentials'' then [''true'']
       else if name = ''Access-Control-Allow-Origin'' then [origin]
       else if name = ''Access-Control-Allow-Headers'' then Values (Header writer) name @ hs
       else if name = ''Access-Control-Allow-Methods'' then Values (Header writer) name @ ms
       else Values (Header writer) name)"
  proof (cases "name \<in> {''Access-Control-Max-Age'', ''Access-Control-Allow-Credentials'',
                        ''Access-Control-Allow-Origin''}")
    case True
    then show ?thesis
      by (auto simp: w_def preflightResponse_def WriteHeader_def Header_Set_def Values_def Header_addEach_other)
  next
    case False
    then have "Values (Header w) name =
        Values (Header (addEach ''Access-Control-Allow-Headers'' hs
                   (addEach ''Access-Control-Allow-Methods'' ms writer))) name"
      by (simp add: w_def preflightResponse_def WriteHeader_def Header_Set_def Values_def)
    also have "\<dots> = (if name = ''Access-Control-Allow-Headers'' then Values (Header writer) name @ hs
       else if name = ''Access-Control-Allow-Methods'' then Values (Header writer) name @ ms
       else Values (Header writer) name)"
    proof -
      have ne: "''Access-Control-Allow-Headers'' \<noteq> ''Access-Control-Allow-Methods''"
        by simp
      consider "name = ''Access-Control-Allow-Headers''" | "name = ''Access-Control-Allow-Methods''"
        | "name \<noteq> ''Access-Control-Allow-Headers''" "name \<noteq> ''Access-Control-Allow-Methods''"
        by blast
      then show ?thesis
      proof cases
        case 1
        then show ?thesis
          by (simp add: Values_addEach other [OF ne])
      next
        case 2
        then show ?thesis
          by (simp add: Values_addEach other [OF ne [symmetric]])
      next
        case 3
        then show ?thesis
          by (simp add: other)
      qed
    qed
    finally show ?thesis using False by simp
  qed
qed


lemma allowed_iff:
  assumes "derived_ok ext mw"
  shows "index (methodsInUse ext mw) k \<longleftrightarrow> k \<in> ToUpper ext ` set (AllowedMethods mw)"
    and "requestedHeadersAllowed (headersInUse ext mw) hs \<longleftrightarrow>
         set hs \<subseteq> CanonicalHeaderKey ext ` set (AllowedHeaders mw)"
proof -
  show "index (methodsInUse ext mw) k \<longleftrightarrow> k \<in> ToUpper ext ` set (AllowedMethods mw)"
    by (rule index_holds_exactly) (rule methodsInUse_exact [OF assms])
  have "index (headersInUse ext mw) h \<longleftrightarrow> h \<in> CanonicalHeaderKey ext ` set (AllowedHeaders mw)" for h
    by (rule index_holds_exactly) (rule headersInUse_exact [OF assms])
  then show "requestedHeadersAllowed (headersInUse ext mw) hs \<longleftrightarrow>
         set hs \<subseteq> CanonicalHeaderKey ext ` set (AllowedHeaders mw)"
    unfolding requestedHeadersAllowed_iff by blast
qed

lemma range_order_keys:
  assumes "range_order ord" and "holds_exactly m S"
  shows "set (ord (keys m)) = S" and "distinct (ord (keys m))"
proof -
  from assms(1) have m: "mset (ord (keys m)) = mset (keys m)"
    by (simp add: range_order_def)
  from keys_holds_exactly [OF assms(2)] have k: "set (keys m) = S" "distinct (keys m)"
    by simp_all
  from m k show "set (ord (keys m)) = S"
    by (metis mset_eq_setD)
  from m k show "distinct (ord (keys m))"
    by (metis mset_eq_imp_distinct_iff)
qed

lemma preflight_response_max_age:
  "Header (preflightResponse ms hs origin cred age writer) ''Access-Control-Max-Age'' =
     Some [intstring age]"
  by (simp add: preflightResponse_def WriteHeader_def Header_Set_def)

lemma decorated_response:
  shows "Header (decorated origin cred writer) ''Access-Control-Allow-Origin'' = Some [origin]"
    and "Header (decorated origin cred writer) ''Access-Control-Expose-Headers'' = Some [''X-Powered-By'']"
    and "Status (decorated origin cred writer) = Status writer"
    and "Body (decorated origin cred writer) = Body writer"
  by (simp_all add: decorated_def Header_Set_def)

subsection \<open>The example requests\<close>

lemma GetCorsInfo_example:
  "GetCorsInfo exampleExternals = Request_GetCorsInfo asciiToUpper asciiCanonicalHeaderKey"
  by (simp add: exampleExternals_def externalsFor_def)

lemma ex_pre: "Request_GetCorsInfo asciiToUpper asciiCanonicalHeaderKey examplePreflight =
  \<lparr>IsCors = True, IsPreflight = True, Origin = ''http://a.com'', AccessControlRequestMethod = ''POST'',
   AccessControlRequestHeaders = [''X-Custom'', ''X-Custom'', ''X-Custom'']\<rparr>"
  by code_simp

lemma ex_delete: "Request_GetCorsInfo asciiToUpper asciiCanonicalHeaderKey exampleDelete =
  \<lparr>IsCors = True, IsPreflight = True, Origin = ''http://a.com'', AccessControlRequestMethod = ''DELETE'',
   AccessControlRequestHeaders = []\<rparr>"
  by code_simp

lemma ex_other: "Request_GetCorsInfo asciiToUpper asciiCanonicalHeaderKey exampleOtherHeader =
  \<lparr>IsCors = True, IsPreflight = True, Origin = ''http://a.com'', AccessControlRequestMethod = ''GET'',
   AccessControlRequestHeaders = [''X-Custom'', ''X-Other'']\<rparr>"
  by code_simp

lemma ex_simple: "Request_GetCorsInfo asciiToUpper asciiCanonicalHeaderKey exampleSimple =
  \<lparr>IsCors = True, IsPreflight = False, Origin = ''http://a.com'', AccessControlRequestMethod = [],
   AccessControlRequestHeaders = []\<rparr>"
  by code_simp

lemma ex_evil: "Request_GetCorsInfo asciiToUpper asciiCanonicalHeaderKey exampleEvil =
  \<lparr>IsCors = True, IsPreflight = False, Origin = ''http://evil.com'', AccessControlRequestMethod = [],
   AccessControlRequestHeaders = []\<rparr>"
  by code_simp

lemma ex_noncors: "Request_GetCorsInfo asciiToUpper asciiCanonicalHeaderKey exampleNonCors =
  \<lparr>IsCors = False, IsPreflight = False, Origin = [], AccessControlRequestMethod = [],
   AccessControlRequestHeaders = []\<rparr>"
  by code_simp

lemma ex_upper: "map asciiToUpper [''GET'', ''Post'', ''post'', ''delete''] = [''GET'', ''POST'', ''POST'', ''DELETE'']"
  by code_simp

lemma ex_canon: "map asciiCanonicalHeaderKey [''x-custom''] = [''X-Custom'']"
  by code_simp

lemma ex_dec: "decimal 3600 = ''3600''"
  by code_simp

lemma ex_intstring: "intstring 3600 = [CHR 0xE0, CHR 0xB8, CHR 0x90]"
  by code_simp

lemma range_order_id: "range_order id" "range_order rev" "range_order (\<lambda>ks. ks)"
  by (simp_all add: range_order_def)

lemma ex_inv: "derived_ok exampleExternals examplePolicy"
  by (simp add: derived_ok_def examplePolicy_def)

lemma ex_inv2: "derived_ok exampleExternals examplePolicyInUse"
  using ex_upper ex_canon
  by (simp add: derived_ok_def examplePolicyInUse_def examplePolicy_def holds_exactly_def exampleExternals_def externalsFor_def)

lemma example_allowed:
  "ToUpper exampleExternals ` set (AllowedMethods examplePolicy) = {''GET'', ''POST''}"
  "CanonicalHeaderKey exampleExternals ` set (AllowedHeaders examplePolicy) = {''X-Custom''}"
  using ex_upper ex_canon
  by (simp_all add: exampleExternals_def externalsFor_def examplePolicy_def)

lemma example_policy:
  "OriginValidator examplePolicy = Some exampleValidator"
  "RejectNonCorsRequests examplePolicy = False"
  "AccessControlMaxAge examplePolicy = 3600"
  "AccessControlAllowCredentials examplePolicy = True"
  by (simp_all add: examplePolicy_def)

subsection \<open>Auxiliary facts for the claims\<close>

lemma GetCorsInfo_externalsFor:
  "GetCorsInfo (externalsFor up canon) = Request_GetCorsInfo up canon"
  "ToUpper (externalsFor up canon) = up"
  "CanonicalHeaderKey (externalsFor up canon) = canon"
  by (simp_all add: externalsFor_def)

lemma Request_GetCorsInfo_method:
  "AccessControlRequestMethod (Request_GetCorsInfo up canon request) =
     up (Header_Get (RequestHeader request) ''Access-Control-Request-Method'')"
  by (simp add: Request_GetCorsInfo_def Let_def)

lemma inUse_after:
  "methodsInUse ext (mw\<lparr>allowedMethods := Some (methodsInUse ext mw),
                          allowedHeaders := Some (headersInUse ext mw)\<rparr>) = methodsInUse ext mw"
  "headersInUse ext (mw\<lparr>allowedMethods := Some (methodsInUse ext mw),
                          allowedHeaders := Some (headersInUse ext mw)\<rparr>) = headersInUse ext mw"
  by (simp_all add: methodsInUse_def headersInUse_def)

lemma receiver_after_cases:
  "receiver_after mw (MiddlewareFunc ext handler ordM ordH mw writer request) \<in>
     {mw,
      mw\<lparr>allowedMethods := Some (methodsInUse ext mw)\<rparr>,
      mw\<lparr>allowedMethods := Some (methodsInUse ext mw),
         allowedHeaders := Some (headersInUse ext mw)\<rparr>}"
proof (cases "IsCors (GetCorsInfo ext request)")
  case False
  then show ?thesis
    by (simp add: MiddlewareFunc_nonCors)
next
  case cors: True
  show ?thesis
  proof (cases "OriginValidator mw")
    case None
    with cors show ?thesis
      by (simp add: MiddlewareFunc_nilValidator)
  next
    case val: (Some validator)
    show ?thesis
    proof (cases "validator (Origin (GetCorsInfo ext request)) request")
      case False
      with cors val show ?thesis
        by (simp add: MiddlewareFunc_invalidOrigin)
    next
      case acc: True
      show ?thesis
      proof (cases "IsPreflight (GetCorsInfo ext request)")
        case False
        then show ?thesis
          by (simp add: MiddlewareFunc_simple [OF cors val acc])
      next
        case pre: True
        show ?thesis
        proof (cases "index (methodsInUse ext mw)
                        (AccessControlRequestMethod (GetCorsInfo ext request))")
          case False
          then show ?thesis
            by (simp add: MiddlewareFunc_methodRejected [OF cors val acc pre])
        next
          case m: True
          show ?thesis
          proof (cases "requestedHeadersAllowed (headersInUse ext mw)
                          (AccessControlRequestHeaders (GetCorsInfo ext request))")
            case False
            then show ?thesis
              by (simp add: MiddlewareFunc_headerRejected [OF cors val acc pre m])
          next
            case True
            then show ?thesis
              by (simp add: MiddlewareFunc_preflightOK [OF cors val acc pre m])
          qed
        qed
      qed
    qed
  qed
qed

lemma example_info:
  "GetCorsInfo exampleExternals examplePreflight =
     \<lparr>IsCors = True, IsPreflight = True, Origin = ''http://a.com'',
      AccessControlRequestMethod = ''POST'',
      AccessControlRequestHeaders = [''X-Custom'', ''X-Custom'', ''X-Custom'']\<rparr>"
  "GetCorsInfo exampleExternals exampleDelete =
     \<lparr>IsCors = True, IsPreflight = True, Origin = ''http://a.com'',
      AccessControlRequestMethod = ''DELETE'', AccessControlRequestHeaders = []\<rparr>"
  "GetCorsInfo exampleExternals exampleOtherHeader =
     \<lparr>IsCors = True, IsPreflight = True, Origin = ''http://a.com'',
      AccessControlRequestMethod = ''GET'',
      AccessControlRequestHeaders = [''X-Custom'', ''X-Other'']\<rparr>"
  "GetCorsInfo exampleExternals exampleSimple =
     \<lparr>IsCors = True, IsPreflight = False, Origin = ''http://a.com'',
      AccessControlRequestMethod = [], AccessControlRequestHeaders = []\<rparr>"
  "GetCorsInfo exampleExternals exampleEvil =
     \<lparr>IsCors = True, IsPreflight = False, Origin = ''http://evil.com'',
      AccessControlRequestMethod = [], AccessControlRequestHeaders = []\<rparr>"
  "GetCorsInfo exampleExternals exampleNonCors =
     \<lparr>IsCors = False, IsPreflight = False, Origin = [],
      AccessControlRequestMethod = [], AccessControlRequestHeaders = []\<rparr>"
  by (simp_all only: GetCorsInfo_example ex_pre ex_delete ex_other ex_simple ex_evil ex_noncors)

lemma example_response:
  "Header emptyResponse = Map.empty" "Status emptyResponse = None" "Body emptyResponse = []"
  "Values (Header emptyResponse) name = []"
  by (simp_all add: emptyResponse_def Values_def)

lemma example_raw_method:
  "asciiToUpper (Header_Get (RequestHeader examplePreflight) ''Access-Control-Request-Method'') = ''POST''"
  "asciiToUpper (Header_Get (RequestHeader exampleDelete) ''Access-Control-Request-Method'') = ''DELETE''"
  "Header_Get (RequestHeader examplePreflight) ''Access-Control-Request-Method'' = ''post''"
  by code_simp+

section \<open>The claims\<close>

text \<open>
  Claim C1. A preflight request (a CORS request with the preflight flag) whose origin the
  validator accepts, whose requested method is in the upper-cased configured methods and
  whose requested headers are all in the canonical configured headers is answered with
  status 200 and no body, without the wrapped handler being run. The values the call
  adds to \<open>Access-Control-Allow-Methods\<close> are, as a set, exactly the upper-cased
  configured methods, each added once. The private maps may be nil or already filled.
\<close>

theorem C1_preflight_allow_methods:
  assumes inv: "derived_ok ext mw" and ord: "range_order ordM"
    and cors: "IsCors (GetCorsInfo ext request)"
    and val: "OriginValidator mw = Some validator"
    and acc: "validator (Origin (GetCorsInfo ext request)) request"
    and pre: "IsPreflight (GetCorsInfo ext request)"
    and meth: "AccessControlRequestMethod (GetCorsInfo ext request)
                 \<in> ToUpper ext ` set (AllowedMethods mw)"
    and hdrs: "set (AccessControlRequestHeaders (GetCorsInfo ext request))
                 \<subseteq> CanonicalHeaderKey ext ` set (AllowedHeaders mw)"
  shows "\<exists>out added.
           MiddlewareFunc ext handler ordM ordH mw writer request = Inr out \<and>
           Status (writer_after out) = Some 200 \<and>
           Body (writer_after out) = Body writer \<and>
           \<not> handler_called out \<and>
           Values (Header (writer_after out)) ''Access-Control-Allow-Methods'' =
             Values (Header writer) ''Access-Control-Allow-Methods'' @ added \<and>
           distinct added \<and>
           set added = ToUpper ext ` set (AllowedMethods mw)"
proof -
  let ?added = "ordM (keys (methodsInUse ext mw))"
  from meth have m: "index (methodsInUse ext mw) (AccessControlRequestMethod (GetCorsInfo ext request))"
    by (simp add: allowed_iff(1) [OF inv])
  from hdrs have h: "requestedHeadersAllowed (headersInUse ext mw)
      (AccessControlRequestHeaders (GetCorsInfo ext request))"
    by (simp add: allowed_iff(2) [OF inv])
  let ?w = "preflightResponse ?added (ordH (keys (headersInUse ext mw)))
             (Origin (GetCorsInfo ext request)) (AccessControlAllowCredentials mw)
             (AccessControlMaxAge mw) writer"
  let ?out = "\<lparr>mw_after = mw\<lparr>allowedMethods := Some (methodsInUse ext mw),
                                  allowedHeaders := Some (headersInUse ext mw)\<rparr>,
                writer_after = ?w, handler_called = False\<rparr>"
  have run: "MiddlewareFunc ext handler ordM ordH mw writer request = Inr ?out"
    by (rule MiddlewareFunc_preflightOK [OF cors val acc pre m h])
  have added: "set ?added = ToUpper ext ` set (AllowedMethods mw)" "distinct ?added"
    by (rule range_order_keys [OF ord methodsInUse_exact [OF inv]])+
  have "Status ?w = Some 200" "Body ?w = Body writer"
    by (rule preflight_response)+
  moreover have "Values (Header ?w) ''Access-Control-Allow-Methods'' =
      Values (Header writer) ''Access-Control-Allow-Methods'' @ ?added"
    by (simp add: preflight_response(3))
  ultimately have "MiddlewareFunc ext handler ordM ordH mw writer request = Inr ?out \<and>
           Status (writer_after ?out) = Some 200 \<and>
           Body (writer_after ?out) = Body writer \<and>
           \<not> handler_called ?out \<and>
           Values (Header (writer_after ?out)) ''Access-Control-Allow-Methods'' =
             Values (Header writer) ''Access-Control-Allow-Methods'' @ ?added \<and>
           distinct ?added \<and>
           set ?added = ToUpper ext ` set (AllowedMethods mw)"
    using run added by simp
  then show ?thesis
    by blast
qed

text \<open>
  The example preflight request against the example policy, the methods visited in
  reverse order: status 200 and the two methods GET and POST.
\<close>

theorem C1_preflight_allow_methods_witness:
  "\<exists>out added.
     MiddlewareFunc exampleExternals exampleHandler rev id examplePolicy emptyResponse
       examplePreflight = Inr out \<and>
     Status (writer_after out) = Some 200 \<and>
     Body (writer_after out) = [] \<and>
     \<not> handler_called out \<and>
     Values (Header (writer_after out)) ''Access-Control-Allow-Methods'' = added \<and>
     distinct added \<and>
     set added = {''GET'', ''POST''}"
proof -
  have "\<exists>out added.
     MiddlewareFunc exampleExternals exampleHandler rev id examplePolicy emptyResponse
       examplePreflight = Inr out \<and>
     Status (writer_after out) = Some 200 \<and>
     Body (writer_after out) = Body emptyResponse \<and>
     \<not> handler_called out \<and>
     Values (Header (writer_after out)) ''Access-Control-Allow-Methods'' =
       Values (Header emptyResponse) ''Access-Control-Allow-Methods'' @ added \<and>
     distinct added \<and>
     set added = ToUpper exampleExternals ` set (AllowedMethods examplePolicy)"
    by (rule C1_preflight_allow_methods [OF ex_inv range_order_id(2) _ example_policy(1)])
      (simp_all add: example_info example_allowed exampleValidator_def)
  then show ?thesis
    by (simp add: example_response(3,4) example_allowed)
qed

text \<open>
  Claim C2. The claim is that a successful preflight response carries the decimal string
  of \<open>AccessControlMaxAge\<close> in \<open>Access-Control-Max-Age\<close>. Line 102 converts the
  integer with \<open>string(...)\<close>, which gives the UTF-8 encoding of the code point with
  that number: for the configured value 3600 the header holds the three bytes E0 B8 90
  (U+0E10) and not the string "3600".
\<close>

theorem C2_max_age_code_point:
  "\<exists>out.
     MiddlewareFunc exampleExternals exampleHandler id id examplePolicy emptyResponse
       examplePreflight = Inr out \<and>
     Status (writer_after out) = Some 200 \<and>
     AccessControlMaxAge examplePolicy = 3600 \<and>
     decimal 3600 = ''3600'' \<and>
     Header (writer_after out) ''Access-Control-Max-Age'' = Some [[CHR 0xE0, CHR 0xB8, CHR 0x90]] \<and>
     Header (writer_after out) ''Access-Control-Max-Age'' \<noteq> Some [decimal 3600]"
proof -
  let ?M = "methodsInUse exampleExternals examplePolicy"
  let ?H = "headersInUse exampleExternals examplePolicy"
  let ?w = "preflightResponse (id (keys ?M)) (id (keys ?H))
              (Origin (GetCorsInfo exampleExternals examplePreflight))
              (AccessControlAllowCredentials examplePolicy) (AccessControlMaxAge examplePolicy)
              emptyResponse"
  let ?out = "\<lparr>mw_after = examplePolicy\<lparr>allowedMethods := Some ?M, allowedHeaders := Some ?H\<rparr>,
               writer_after = ?w, handler_called = False\<rparr>"
  have "MiddlewareFunc exampleExternals exampleHandler id id examplePolicy emptyResponse
       examplePreflight = Inr ?out"
    by (rule MiddlewareFunc_preflightOK [OF _ example_policy(1)])
      (simp_all only: allowed_iff [OF ex_inv], simp_all add: example_info exampleValidator_def example_allowed)
  moreover have "Status ?w = Some 200"
    by (rule preflight_response(1))
  moreover have "Header ?w ''Access-Control-Max-Age'' = Some [[CHR 0xE0, CHR 0xB8, CHR 0x90]]"
    by (simp add: preflight_response_max_age example_policy ex_intstring)
  ultimately have "MiddlewareFunc exampleExternals exampleHandler id id examplePolicy emptyResponse
       examplePreflight = Inr ?out \<and>
     Status (writer_after ?out) = Some 200 \<and>
     AccessControlMaxAge examplePolicy = 3600 \<and>
     decimal 3600 = ''3600'' \<and>
     Header (writer_after ?out) ''Access-Control-Max-Age'' = Some [[CHR 0xE0, CHR 0xB8, CHR 0x90]] \<and>
     Header (writer_after ?out) ''Access-Control-Max-Age'' \<noteq> Some [decimal 3600]"
    by (simp add: example_policy ex_dec)
  then show ?thesis
    by blast
qed

text \<open>
  Claim C3. With the requested method upper-cased when the CORS fields are read off the
  request, a preflight request with an accepted origin passes the method check exactly
  when the upper-cased value of its \<open>Access-Control-Request-Method\<close> header is the
  upper-cased form of a configured method: a difference in letter case only does not
  matter, and the status is then decided by the requested headers alone. Otherwise the
  answer is 403 with the body "Invalid Preflight Request". In neither case is the
  wrapped handler run.
\<close>

theorem C3_method_upper_cased:
  assumes inv: "derived_ok (externalsFor up canon) mw"
    and cors: "IsCors (Request_GetCorsInfo up canon request)"
    and val: "OriginValidator mw = Some validator"
    and acc: "validator (Origin (Request_GetCorsInfo up canon request)) request"
    and pre: "IsPreflight (Request_GetCorsInfo up canon request)"
  shows "\<exists>out.
           MiddlewareFunc (externalsFor up canon) handler ordM ordH mw writer request = Inr out \<and>
           \<not> handler_called out \<and>
           (if up (Header_Get (RequestHeader request) ''Access-Control-Request-Method'')
                 \<in> up ` set (AllowedMethods mw)
            then Status (writer_after out) =
                   Some (if set (AccessControlRequestHeaders (Request_GetCorsInfo up canon request))
                              \<subseteq> canon ` set (AllowedHeaders mw)
                         then 200 else 403)
            else Status (writer_after out) = Some 403 \<and>
                 Body (writer_after out) = ''Invalid Preflight Request'' \<and>
                 Header (writer_after out) = Header writer)"
proof -
  let ?ext = "externalsFor up canon"
  let ?info = "GetCorsInfo ?ext request"
  have info: "?info = Request_GetCorsInfo up canon request"
    by (simp add: GetCorsInfo_externalsFor)
  note c = cors [folded info] and a = acc [folded info] and p = pre [folded info]
  have mcheck: "index (methodsInUse ?ext mw) (AccessControlRequestMethod ?info) \<longleftrightarrow>
      up (Header_Get (RequestHeader request) ''Access-Control-Request-Method'')
        \<in> up ` set (AllowedMethods mw)"
    by (simp add: allowed_iff(1) [OF inv] GetCorsInfo_externalsFor Request_GetCorsInfo_method)
  have hcheck:
    "requestedHeadersAllowed (headersInUse ?ext mw) (AccessControlRequestHeaders ?info) \<longleftrightarrow>
      set (AccessControlRequestHeaders (Request_GetCorsInfo up canon request))
        \<subseteq> canon ` set (AllowedHeaders mw)"
    by (simp add: allowed_iff(2) [OF inv] GetCorsInfo_externalsFor)
  show ?thesis
  proof (cases "index (methodsInUse ?ext mw) (AccessControlRequestMethod ?info)")
    case False
    show ?thesis
      unfolding MiddlewareFunc_methodRejected [OF c val a p False]
      using False by (simp add: mcheck Error_def StatusForbidden_def)
  next
    case m: True
    show ?thesis
    proof (cases "requestedHeadersAllowed (headersInUse ?ext mw) (AccessControlRequestHeaders ?info)")
      case True
      show ?thesis
        unfolding MiddlewareFunc_preflightOK [OF c val a p m True]
        using m True by (simp add: mcheck hcheck preflight_response)
    next
      case False
      show ?thesis
        unfolding MiddlewareFunc_headerRejected [OF c val a p m False]
        using m False by (simp add: mcheck hcheck Error_def StatusForbidden_def)
    qed
  qed
qed

text \<open>
  The example policy allows "Post" and the example preflight request asks for "post":
  it is accepted. The request for "delete" is answered with 403.
\<close>

theorem C3_method_upper_cased_witness:
  "Header_Get (RequestHeader examplePreflight) ''Access-Control-Request-Method'' = ''post'' \<and>
   AllowedMethods examplePolicy = [''GET'', ''Post''] \<and>
   (\<exists>out.
      MiddlewareFunc exampleExternals exampleHandler id id examplePolicy emptyResponse
        examplePreflight = Inr out \<and>
      \<not> handler_called out \<and>
      Status (writer_after out) = Some 200) \<and>
   (\<exists>out.
      MiddlewareFunc exampleExternals exampleHandler id id examplePolicy emptyResponse
        exampleDelete = Inr out \<and>
      \<not> handler_called out \<and>
      Status (writer_after out) = Some 403 \<and>
      Body (writer_after out) = ''Invalid Preflight Request'')"
proof -
  let ?info = "Request_GetCorsInfo asciiToUpper asciiCanonicalHeaderKey"
  note inv = ex_inv [unfolded exampleExternals_def]
  note val = example_policy(1)
  have a: "exampleValidator (Origin (?info examplePreflight)) examplePreflight"
    and b: "exampleValidator (Origin (?info exampleDelete)) exampleDelete"
    by (simp_all add: ex_pre ex_delete exampleValidator_def)
  have c: "IsCors (?info examplePreflight)" "IsPreflight (?info examplePreflight)"
    and d: "IsCors (?info exampleDelete)" "IsPreflight (?info exampleDelete)"
    by (simp_all add: ex_pre ex_delete)
  have allowed: "asciiToUpper ` set (AllowedMethods examplePolicy) = {''GET'', ''POST''}"
    "asciiCanonicalHeaderKey ` set (AllowedHeaders examplePolicy) = {''X-Custom''}"
    using example_allowed by (simp_all add: exampleExternals_def GetCorsInfo_externalsFor)
  have post: "asciiToUpper (Header_Get (RequestHeader examplePreflight)
                ''Access-Control-Request-Method'')
                \<in> asciiToUpper ` set (AllowedMethods examplePolicy)"
    by (simp only: example_raw_method(1) allowed) simp
  have custom: "set (AccessControlRequestHeaders (?info examplePreflight))
                  \<subseteq> asciiCanonicalHeaderKey ` set (AllowedHeaders examplePolicy)"
    by (simp only: ex_pre allowed) simp
  have delete: "asciiToUpper (Header_Get (RequestHeader exampleDelete)
                  ''Access-Control-Request-Method'')
                  \<notin> asciiToUpper ` set (AllowedMethods examplePolicy)"
    by (simp only: example_raw_method(2) allowed) simp
  from C3_method_upper_cased [OF inv c(1) val a c(2), of exampleHandler id id emptyResponse]
  have first: "\<exists>out.
      MiddlewareFunc exampleExternals exampleHandler id id examplePolicy emptyResponse
        examplePreflight = Inr out \<and>
      \<not> handler_called out \<and>
      Status (writer_after out) = Some 200"
    by (simp only: post custom if_True exampleExternals_def)
  from C3_method_upper_cased [OF inv d(1) val b d(2), of exampleHandler id id emptyResponse]
  have "\<exists>out.
      MiddlewareFunc exampleExternals exampleHandler id id examplePolicy emptyResponse
        exampleDelete = Inr out \<and>
      \<not> handler_called out \<and>
      Status (writer_after out) = Some 403 \<and>
      Body (writer_after out) = ''Invalid Preflight Request'' \<and>
      Header (writer_after out) = Header emptyResponse"
    by (simp only: delete if_False exampleExternals_def)
  then have second: "\<exists>out.
      MiddlewareFunc exampleExternals exampleHandler id id examplePolicy emptyResponse
        exampleDelete = Inr out \<and>
      \<not> handler_called out \<and>
      Status (writer_after out) = Some 403 \<and>
      Body (writer_after out) = ''Invalid Preflight Request''"
    by blast
  have "AllowedMethods examplePolicy = [''GET'', ''Post'']"
    by (simp add: examplePolicy_def)
  with first second example_raw_method(3) show ?thesis
    by (intro conjI)
qed

text \<open>
  Claim C4. A CORS request whose origin the validator rejects is answered with status
  403 and the body "Invalid Origin"; the wrapped handler is not run, and neither the
  response headers nor the middleware change.
\<close>

theorem C4_invalid_origin:
  assumes cors: "IsCors (GetCorsInfo ext request)"
    and val: "OriginValidator mw = Some validator"
    and rej: "validator (Origin (GetCorsInfo ext request)) request = False"
  shows "\<exists>out.
           MiddlewareFunc ext handler ordM ordH mw writer request = Inr out \<and>
           Status (writer_after out) = Some 403 \<and>
           Body (writer_after out) = ''Invalid Origin'' \<and>
           Header (writer_after out) = Header writer \<and>
           \<not> handler_called out \<and>
           mw_after out = mw"
proof -
  from rej have "\<not> validator (Origin (GetCorsInfo ext request)) request"
    by simp
  note run = MiddlewareFunc_invalidOrigin [OF cors val this, of handler ordM ordH writer]
  show ?thesis
    unfolding run by (simp add: Error_def StatusForbidden_def)
qed

text \<open>
  The example request from an origin that the example validator rejects.
\<close>

theorem C4_invalid_origin_witness:
  "\<exists>out.
     MiddlewareFunc exampleExternals exampleHandler id id examplePolicy emptyResponse
       exampleEvil = Inr out \<and>
     Status (writer_after out) = Some 403 \<and>
     Body (writer_after out) = ''Invalid Origin'' \<and>
     Header (writer_after out) = Header emptyResponse \<and>
     \<not> handler_called out \<and>
     mw_after out = examplePolicy"
  by (rule C4_invalid_origin [OF _ example_policy(1)])
    (simp_all add: example_info exampleValidator_def)

text \<open>
  Claim C5. For a preflight request with an accepted origin and a whitelisted method:
  if some requested header is not among the canonical configured headers the answer is
  403 with the body "Invalid Preflight Request", and otherwise (in particular when no
  header is requested) the check passes and the answer is 200. The wrapped handler is
  not run in either case.
\<close>

theorem C5_requested_headers:
  assumes inv: "derived_ok ext mw"
    and cors: "IsCors (GetCorsInfo ext request)"
    and val: "OriginValidator mw = Some validator"
    and acc: "validator (Origin (GetCorsInfo ext request)) request"
    and pre: "IsPreflight (GetCorsInfo ext request)"
    and meth: "AccessControlRequestMethod (GetCorsInfo ext request)
                 \<in> ToUpper ext ` set (AllowedMethods mw)"
  shows "\<exists>out.
           MiddlewareFunc ext handler ordM ordH mw writer request = Inr out \<and>
           \<not> handler_called out \<and>
           (if \<exists>h \<in> set (AccessControlRequestHeaders (GetCorsInfo ext request)).
                 h \<notin> CanonicalHeaderKey ext ` set (AllowedHeaders mw)
            then Status (writer_after out) = Some 403 \<and>
                 Body (writer_after out) = ''Invalid Preflight Request'' \<and>
                 Header (writer_after out) = Header writer
            else Status (writer_after out) = Some 200 \<and>
                 Body (writer_after out) = Body writer)"
proof -
  from meth have m: "index (methodsInUse ext mw) (AccessControlRequestMethod (GetCorsInfo ext request))"
    by (simp add: allowed_iff(1) [OF inv])
  show ?thesis
  proof (cases "requestedHeadersAllowed (headersInUse ext mw)
                  (AccessControlRequestHeaders (GetCorsInfo ext request))")
    case True
    then have "\<not> (\<exists>h \<in> set (AccessControlRequestHeaders (GetCorsInfo ext request)).
                 h \<notin> CanonicalHeaderKey ext ` set (AllowedHeaders mw))"
      unfolding allowed_iff(2) [OF inv] by blast
    then show ?thesis
      unfolding MiddlewareFunc_preflightOK [OF cors val acc pre m True]
      by (simp add: preflight_response)
  next
    case False
    then have "\<exists>h \<in> set (AccessControlRequestHeaders (GetCorsInfo ext request)).
                 h \<notin> CanonicalHeaderKey ext ` set (AllowedHeaders mw)"
      unfolding allowed_iff(2) [OF inv] by blast
    then show ?thesis
      unfolding MiddlewareFunc_headerRejected [OF cors val acc pre m False]
      by (simp add: Error_def StatusForbidden_def)
  qed
qed

text \<open>
  The example preflight request asks three times for the allowed header and gets 200;
  the request that also asks for \<open>x-other\<close> gets 403.
\<close>

theorem C5_requested_headers_witness:
  "(\<exists>out.
      MiddlewareFunc exampleExternals exampleHandler id id examplePolicy emptyResponse
        examplePreflight = Inr out \<and>
      \<not> handler_called out \<and>
      Status (writer_after out) = Some 200) \<and>
   (\<exists>out.
      MiddlewareFunc exampleExternals exampleHandler id id examplePolicy emptyResponse
        exampleOtherHeader = Inr out \<and>
      \<not> handler_called out \<and>
      Status (writer_after out) = Some 403 \<and>
      Body (writer_after out) = ''Invalid Preflight Request'')"
proof -
  have a: "exampleValidator (Origin (GetCorsInfo exampleExternals examplePreflight)) examplePreflight"
    and b: "exampleValidator (Origin (GetCorsInfo exampleExternals exampleOtherHeader))
              exampleOtherHeader"
    by (simp_all add: example_info exampleValidator_def)
  have c: "IsCors (GetCorsInfo exampleExternals examplePreflight)"
    "IsPreflight (GetCorsInfo exampleExternals examplePreflight)"
    "AccessControlRequestMethod (GetCorsInfo exampleExternals examplePreflight)
       \<in> ToUpper exampleExternals ` set (AllowedMethods examplePolicy)"
    and d: "IsCors (GetCorsInfo exampleExternals exampleOtherHeader)"
    "IsPreflight (GetCorsInfo exampleExternals exampleOtherHeader)"
    "AccessControlRequestMethod (GetCorsInfo exampleExternals exampleOtherHeader)
       \<in> ToUpper exampleExternals ` set (AllowedMethods examplePolicy)"
    by (simp_all add: example_info example_allowed)
  show ?thesis
    using C5_requested_headers [OF ex_inv c(1) example_policy(1) a c(2,3),
        of exampleHandler id id emptyResponse]
      C5_requested_headers [OF ex_inv d(1) example_policy(1) b d(2,3),
        of exampleHandler id id emptyResponse]
    by (simp add: example_info example_allowed) blast
qed

text \<open>
  Claim C6. A request that is not a CORS request is, when \<open>RejectNonCorsRequests\<close> is
  set, answered with 403 and the body "Non CORS request" without running the wrapped
  handler and with the response headers untouched; otherwise the wrapped handler is run
  on the response writer as it came in, so the middleware adds no header.
\<close>

theorem C6_non_cors:
  assumes "\<not> IsCors (GetCorsInfo ext request)"
  shows "\<exists>out.
           MiddlewareFunc ext handler ordM ordH mw writer request = Inr out \<and>
           mw_after out = mw \<and>
           (if RejectNonCorsRequests mw
            then Status (writer_after out) = Some 403 \<and>
                 Body (writer_after out) = ''Non CORS request'' \<and>
                 Header (writer_after out) = Header writer \<and>
                 \<not> handler_called out
            else handler_called out \<and> writer_after out = handler writer request)"
  unfolding MiddlewareFunc_nonCors [OF assms] by (simp add: Error_def StatusForbidden_def)

text \<open>
  The example request without an origin: handed to the wrapped handler by the example
  policy, answered with 403 once \<open>RejectNonCorsRequests\<close> is set.
\<close>

theorem C6_non_cors_witness:
  "(\<exists>out.
      MiddlewareFunc exampleExternals exampleHandler id id examplePolicy emptyResponse
        exampleNonCors = Inr out \<and>
      handler_called out \<and>
      writer_after out = exampleHandler emptyResponse exampleNonCors) \<and>
   (\<exists>out.
      MiddlewareFunc exampleExternals exampleHandler id id
        (examplePolicy\<lparr>RejectNonCorsRequests := True\<rparr>) emptyResponse exampleNonCors = Inr out \<and>
      Status (writer_after out) = Some 403 \<and>
      Body (writer_after out) = ''Non CORS request'' \<and>
      Header (writer_after out) = Header emptyResponse \<and>
      \<not> handler_called out)"
proof -
  have n: "\<not> IsCors (GetCorsInfo exampleExternals exampleNonCors)"
    by (simp add: example_info)
  show ?thesis
    using C6_non_cors [OF n, of exampleHandler id id examplePolicy emptyResponse]
      C6_non_cors [OF n, of exampleHandler id id "examplePolicy\<lparr>RejectNonCorsRequests := True\<rparr>"
        emptyResponse]
    by (simp add: example_policy) blast
qed

text \<open>
  Claim C7. For a CORS request that is not a preflight request and whose origin the
  validator accepts, the wrapped handler is run on a response whose
  \<open>Access-Control-Allow-Origin\<close> header is present and holds exactly the origin of the
  request (so it is the wildcard only if the origin itself is that string); status and
  body are left to the handler.
\<close>

theorem C7_simple_allow_origin:
  assumes cors: "IsCors (GetCorsInfo ext request)"
    and val: "OriginValidator mw = Some validator"
    and acc: "validator (Origin (GetCorsInfo ext request)) request"
    and simple: "\<not> IsPreflight (GetCorsInfo ext request)"
  shows "\<exists>out w.
           MiddlewareFunc ext handler ordM ordH mw writer request = Inr out \<and>
           handler_called out \<and>
           writer_after out = handler w request \<and>
           Header w ''Access-Control-Allow-Origin'' = Some [Origin (GetCorsInfo ext request)] \<and>
           (Origin (GetCorsInfo ext request) \<noteq> ''*'' \<longrightarrow>
              Header w ''Access-Control-Allow-Origin'' \<noteq> Some [''*'']) \<and>
           Status w = Status writer \<and> Body w = Body writer"
proof -
  let ?w = "decorated (Origin (GetCorsInfo ext request)) (AccessControlAllowCredentials mw) writer"
  let ?out = "\<lparr>mw_after = mw, writer_after = handler ?w request, handler_called = True\<rparr>"
  have "MiddlewareFunc ext handler ordM ordH mw writer request = Inr ?out"
    by (rule MiddlewareFunc_simple [OF cors val acc simple])
  moreover have "Header ?w ''Access-Control-Allow-Origin'' = Some [Origin (GetCorsInfo ext request)]"
    and "Status ?w = Status writer" and "Body ?w = Body writer"
    by (rule decorated_response)+
  ultimately have "MiddlewareFunc ext handler ordM ordH mw writer request = Inr ?out \<and>
           handler_called ?out \<and>
           writer_after ?out = handler ?w request \<and>
           Header ?w ''Access-Control-Allow-Origin'' = Some [Origin (GetCorsInfo ext request)] \<and>
           (Origin (GetCorsInfo ext request) \<noteq> ''*'' \<longrightarrow>
              Header ?w ''Access-Control-Allow-Origin'' \<noteq> Some [''*'']) \<and>
           Status ?w = Status writer \<and> Body ?w = Body writer"
    by simp
  then show ?thesis
    by blast
qed

text \<open>
  The example simple request: the origin \<open>http://a.com\<close> is echoed.
\<close>

theorem C7_simple_allow_origin_witness:
  "\<exists>out w.
     MiddlewareFunc exampleExternals exampleHandler id id examplePolicy emptyResponse
       exampleSimple = Inr out \<and>
     handler_called out \<and>
     writer_after out = exampleHandler w exampleSimple \<and>
     Header w ''Access-Control-Allow-Origin'' = Some [''http://a.com''] \<and>
     Header w ''Access-Control-Allow-Origin'' \<noteq> Some [''*'']"
proof -
  have "\<exists>out w.
     MiddlewareFunc exampleExternals exampleHandler id id examplePolicy emptyResponse
       exampleSimple = Inr out \<and>
     handler_called out \<and>
     writer_after out = exampleHandler w exampleSimple \<and>
     Header w ''Access-Control-Allow-Origin'' =
       Some [Origin (GetCorsInfo exampleExternals exampleSimple)] \<and>
     (Origin (GetCorsInfo exampleExternals exampleSimple) \<noteq> ''*'' \<longrightarrow>
        Header w ''Access-Control-Allow-Origin'' \<noteq> Some [''*'']) \<and>
     Status w = Status emptyResponse \<and> Body w = Body emptyResponse"
    by (rule C7_simple_allow_origin [OF _ example_policy(1)])
      (simp_all add: example_info exampleValidator_def)
  then show ?thesis
    by (simp add: example_info) blast
qed

text \<open>
  Claim C8. Two identical successful preflight requests handled one after the other by
  the same middleware, each with a response writer in the same initial state and with
  any orders of iteration over the maps, get the same set (indeed the same multiset) of
  values for every header name, and both get status 200. The first call may be the one
  that fills the private maps.
\<close>

theorem C8_repeated_preflight:
  assumes inv: "derived_ok ext mw"
    and ord: "range_order ordM1" "range_order ordH1" "range_order ordM2" "range_order ordH2"
    and cors: "IsCors (GetCorsInfo ext request)"
    and val: "OriginValidator mw = Some validator"
    and acc: "validator (Origin (GetCorsInfo ext request)) request"
    and pre: "IsPreflight (GetCorsInfo ext request)"
    and meth: "AccessControlRequestMethod (GetCorsInfo ext request)
                 \<in> ToUpper ext ` set (AllowedMethods mw)"
    and hdrs: "set (AccessControlRequestHeaders (GetCorsInfo ext request))
                 \<subseteq> CanonicalHeaderKey ext ` set (AllowedHeaders mw)"
  shows "\<exists>out1 out2.
           MiddlewareFunc ext handler ordM1 ordH1 mw writer request = Inr out1 \<and>
           MiddlewareFunc ext handler ordM2 ordH2 (mw_after out1) writer request = Inr out2 \<and>
           Status (writer_after out1) = Some 200 \<and>
           Status (writer_after out2) = Some 200 \<and>
           (\<forall>name. set (Values (Header (writer_after out1)) name) =
                   set (Values (Header (writer_after out2)) name)) \<and>
           (\<forall>name. mset (Values (Header (writer_after out1)) name) =
                   mset (Values (Header (writer_after out2)) name))"
proof -
  let ?info = "GetCorsInfo ext request"
  let ?M = "methodsInUse ext mw" and ?H = "headersInUse ext mw"
  let ?mw1 = "mw\<lparr>allowedMethods := Some ?M, allowedHeaders := Some ?H\<rparr>"
  let ?w1 = "preflightResponse (ordM1 (keys ?M)) (ordH1 (keys ?H)) (Origin ?info)
               (AccessControlAllowCredentials mw) (AccessControlMaxAge mw) writer"
  let ?w2 = "preflightResponse (ordM2 (keys ?M)) (ordH2 (keys ?H)) (Origin ?info)
               (AccessControlAllowCredentials mw) (AccessControlMaxAge mw) writer"
  let ?out1 = "\<lparr>mw_after = ?mw1, writer_after = ?w1, handler_called = False\<rparr>"
  let ?out2 = "\<lparr>mw_after = ?mw1, writer_after = ?w2, handler_called = False\<rparr>"
  from meth have m: "index ?M (AccessControlRequestMethod ?info)"
    by (simp add: allowed_iff(1) [OF inv])
  from hdrs have h: "requestedHeadersAllowed ?H (AccessControlRequestHeaders ?info)"
    by (simp add: allowed_iff(2) [OF inv])
  have run1: "MiddlewareFunc ext handler ordM1 ordH1 mw writer request = Inr ?out1"
    by (rule MiddlewareFunc_preflightOK [OF cors val acc pre m h])
  have val1: "OriginValidator ?mw1 = Some validator"
    using val by simp
  have m1: "index (methodsInUse ext ?mw1) (AccessControlRequestMethod ?info)"
    using m by (simp only: inUse_after)
  have h1: "requestedHeadersAllowed (headersInUse ext ?mw1) (AccessControlRequestHeaders ?info)"
    using h by (simp only: inUse_after)
  have "MiddlewareFunc ext handler ordM2 ordH2 ?mw1 writer request =
      Inr \<lparr>mw_after = ?mw1\<lparr>allowedMethods := Some (methodsInUse ext ?mw1),
                                allowedHeaders := Some (headersInUse ext ?mw1)\<rparr>,
           writer_after =
             preflightResponse (ordM2 (keys (methodsInUse ext ?mw1)))
               (ordH2 (keys (headersInUse ext ?mw1)))
               (Origin ?info) (AccessControlAllowCredentials ?mw1)
               (AccessControlMaxAge ?mw1) writer,
           handler_called = False\<rparr>"
    by (rule MiddlewareFunc_preflightOK [OF cors val1 acc pre m1 h1])
  then have run2: "MiddlewareFunc ext handler ordM2 ordH2 ?mw1 writer request = Inr ?out2"
    by (simp add: inUse_after)
  have perm: "mset (ordM1 (keys ?M)) = mset (ordM2 (keys ?M))"
    "mset (ordH1 (keys ?H)) = mset (ordH2 (keys ?H))"
    using ord by (simp_all add: range_order_def)
  have same: "mset (Values (Header ?w1) name) = mset (Values (Header ?w2) name)" for name
    by (simp add: preflight_response(3) perm)
  then have same_set: "set (Values (Header ?w1) name) = set (Values (Header ?w2) name)" for name
    by (rule mset_eq_setD)
  have "Status ?w1 = Some 200" "Status ?w2 = Some 200"
    by (rule preflight_response(1))+
  with run1 run2 same same_set
  have "MiddlewareFunc ext handler ordM1 ordH1 mw writer request = Inr ?out1 \<and>
           MiddlewareFunc ext handler ordM2 ordH2 (mw_after ?out1) writer request = Inr ?out2 \<and>
           Status (writer_after ?out1) = Some 200 \<and>
           Status (writer_after ?out2) = Some 200 \<and>
           (\<forall>name. set (Values (Header (writer_after ?out1)) name) =
                   set (Values (Header (writer_after ?out2)) name)) \<and>
           (\<forall>name. mset (Values (Header (writer_after ?out1)) name) =
                   mset (Values (Header (writer_after ?out2)) name))"
    by simp
  then show ?thesis
    by blast
qed

text \<open>
  The example preflight request twice, first on nil maps with the keys in the order of
  the maps, then on the filled maps with the keys in reverse order.
\<close>

theorem C8_repeated_preflight_witness:
  "\<exists>out1 out2.
     MiddlewareFunc exampleExternals exampleHandler id id examplePolicy emptyResponse
       examplePreflight = Inr out1 \<and>
     MiddlewareFunc exampleExternals exampleHandler rev rev (mw_after out1) emptyResponse
       examplePreflight = Inr out2 \<and>
     Status (writer_after out1) = Some 200 \<and>
     Status (writer_after out2) = Some 200 \<and>
     (\<forall>name. set (Values (Header (writer_after out1)) name) =
             set (Values (Header (writer_after out2)) name)) \<and>
     (\<forall>name. mset (Values (Header (writer_after out1)) name) =
             mset (Values (Header (writer_after out2)) name))"
  by (rule C8_repeated_preflight [OF ex_inv range_order_id(1) range_order_id(1) range_order_id(2)
        range_order_id(2) _ example_policy(1)])
    (simp_all add: example_info exampleValidator_def example_allowed)

text \<open>
  Claim C9. For a CORS request that is not a preflight request and whose origin the
  validator accepts, the wrapped handler is run on a response whose
  \<open>Access-Control-Expose-Headers\<close> header is the literal "X-Powered-By", whatever the
  configuration.
\<close>

theorem C9_simple_expose_headers:
  assumes cors: "IsCors (GetCorsInfo ext request)"
    and val: "OriginValidator mw = Some validator"
    and acc: "validator (Origin (GetCorsInfo ext request)) request"
    and simple: "\<not> IsPreflight (GetCorsInfo ext request)"
  shows "\<exists>out w.
           MiddlewareFunc ext handler ordM ordH mw writer request = Inr out \<and>
           handler_called out \<and>
           writer_after out = handler w request \<and>
           Header w ''Access-Control-Expose-Headers'' = Some [''X-Powered-By'']"
proof -
  let ?w = "decorated (Origin (GetCorsInfo ext request)) (AccessControlAllowCredentials mw) writer"
  let ?out = "\<lparr>mw_after = mw, writer_after = handler ?w request, handler_called = True\<rparr>"
  have "MiddlewareFunc ext handler ordM ordH mw writer request = Inr ?out"
    by (rule MiddlewareFunc_simple [OF cors val acc simple])
  moreover have "Header ?w ''Access-Control-Expose-Headers'' = Some [''X-Powered-By'']"
    by (rule decorated_response)
  ultimately have "MiddlewareFunc ext handler ordM ordH mw writer request = Inr ?out \<and>
           handler_called ?out \<and>
           writer_after ?out = handler ?w request \<and>
           Header ?w ''Access-Control-Expose-Headers'' = Some [''X-Powered-By'']"
    by simp
  then show ?thesis
    by blast
qed

text \<open>
  The example simple request.
\<close>

theorem C9_simple_expose_headers_witness:
  "\<exists>out w.
     MiddlewareFunc exampleExternals exampleHandler id id examplePolicy emptyResponse
       exampleSimple = Inr out \<and>
     handler_called out \<and>
     writer_after out = exampleHandler w exampleSimple \<and>
     Header w ''Access-Control-Expose-Headers'' = Some [''X-Powered-By'']"
  by (rule C9_simple_expose_headers [OF _ example_policy(1)])
    (simp_all add: example_info exampleValidator_def)

text \<open>
  Claim C10. A call of the handler preserves \<open>derived_ok\<close> (each private map is nil or
  holds exactly the normalised configured names), leaves the six configuration fields as
  they are, leaves a filled map as it is, and leaves a nil map nil or fills it with the
  map built from the configured list.
\<close>

theorem C10_derived_maps_invariant:
  assumes inv: "derived_ok ext mw"
    and after: "mw' = receiver_after mw (MiddlewareFunc ext handler ordM ordH mw writer request)"
  shows "derived_ok ext mw' \<and>
         RejectNonCorsRequests mw' = RejectNonCorsRequests mw \<and>
         OriginValidator mw' = OriginValidator mw \<and>
         AllowedMethods mw' = AllowedMethods mw \<and>
         AllowedHeaders mw' = AllowedHeaders mw \<and>
         AccessControlAllowCredentials mw' = AccessControlAllowCredentials mw \<and>
         AccessControlMaxAge mw' = AccessControlMaxAge mw \<and>
         (\<forall>m. allowedMethods mw = Some m \<longrightarrow> allowedMethods mw' = Some m) \<and>
         (\<forall>m. allowedHeaders mw = Some m \<longrightarrow> allowedHeaders mw' = Some m) \<and>
         (allowedMethods mw = None \<longrightarrow>
            allowedMethods mw' = None \<or>
            allowedMethods mw' = Some (populate (ToUpper ext) (AllowedMethods mw) [])) \<and>
         (allowedHeaders mw = None \<longrightarrow>
            allowedHeaders mw' = None \<or>
            allowedHeaders mw' = Some (populate (CanonicalHeaderKey ext) (AllowedHeaders mw) []))"
proof -
  let ?M = "methodsInUse ext mw" and ?H = "headersInUse ext mw"
  have M: "holds_exactly ?M (ToUpper ext ` set (AllowedMethods mw))"
    by (rule methodsInUse_exact [OF inv])
  have H: "holds_exactly ?H (CanonicalHeaderKey ext ` set (AllowedHeaders mw))"
    by (rule headersInUse_exact [OF inv])
  from receiver_after_cases [of mw ext handler ordM ordH writer request]
  consider "mw' = mw" | "mw' = mw\<lparr>allowedMethods := Some ?M\<rparr>"
    | "mw' = mw\<lparr>allowedMethods := Some ?M, allowedHeaders := Some ?H\<rparr>"
    unfolding after by blast
  then show ?thesis
  proof cases
    case 1
    with inv show ?thesis
      by simp
  next
    case 2
    have "derived_ok ext mw'"
      using inv M by (simp add: 2 derived_ok_def cong: option.case_cong)
    then show ?thesis
      by (simp add: 2 methodsInUse_def)
  next
    case 3
    have "derived_ok ext mw'"
      using M H by (simp add: 3 derived_ok_def cong: option.case_cong)
    then show ?thesis
      by (simp add: 3 methodsInUse_def headersInUse_def)
  qed
qed

text \<open>
  The example preflight request on the example policy with nil maps and on the one
  with filled maps.
\<close>

theorem C10_derived_maps_invariant_witness:
  "derived_ok exampleExternals
     (receiver_after examplePolicy
       (MiddlewareFunc exampleExternals exampleHandler id id examplePolicy emptyResponse
         examplePreflight)) \<and>
   AllowedMethods
     (receiver_after examplePolicy
       (MiddlewareFunc exampleExternals exampleHandler id id examplePolicy emptyResponse
         examplePreflight)) = [''GET'', ''Post''] \<and>
   derived_ok exampleExternals
     (receiver_after examplePolicyInUse
       (MiddlewareFunc exampleExternals exampleHandler id id examplePolicyInUse emptyResponse
         examplePreflight)) \<and>
   allowedMethods
     (receiver_after examplePolicyInUse
       (MiddlewareFunc exampleExternals exampleHandler id id examplePolicyInUse emptyResponse
         examplePreflight)) = Some [(''GET'', True), (''POST'', True)] \<and>
   allowedHeaders
     (receiver_after examplePolicyInUse
       (MiddlewareFunc exampleExternals exampleHandler id id examplePolicyInUse emptyResponse
         examplePreflight)) = Some [(''X-Custom'', True)]"
  using C10_derived_maps_invariant [OF ex_inv refl,
      of exampleHandler id id emptyResponse examplePreflight]
    C10_derived_maps_invariant [OF ex_inv2 refl,
      of exampleHandler id id emptyResponse examplePreflight]
  by (simp add: examplePolicyInUse_def examplePolicy_def)

end
